theory Spec2Isabelle
  imports Main "HOL-Library.Sublist"
begin

section \<open>Values that cross the viewset's boundary\<close>

text \<open>
  The embedding follows \<^verbatim>\<open>djangorest_alchemy/viewsets.py\<close>, class
  \<^verbatim>\<open>AlchemyModelViewSet\<close>. Response bodies are JSON values; a Python \<^verbatim>\<open>dict\<close>
  literal is an association list in the order it is written.
\<close>

datatype json =
    JNull
  | JInt int
  | JStr string
  | JList "json list"
  | JDict "(string \<times> json) list"

fun dict_get :: "json \<Rightarrow> string \<Rightarrow> json option" where
  "dict_get (JDict kvs) k = map_of kvs k"
| "dict_get _ k = None"

fun dict_keys :: "json \<Rightarrow> string list" where
  "dict_keys (JDict kvs) = map fst kvs"
| "dict_keys _ = []"

text \<open>
  \<^verbatim>\<open>request.query_params\<close>, the URI keyword arguments \<^verbatim>\<open>**kwargs\<close> and the
  dictionary of \<^verbatim>\<open>get_other_pks\<close> are ordered mappings from names to values.
\<close>

type_synonym params = "(string \<times> string) list"

record request =
  query_params :: params

text \<open>The serializer and manager context, \<^verbatim>\<open>{'request': request}\<close>.\<close>

type_synonym request_context = "(string \<times> request) list"

text \<open>
  \<^verbatim>\<open>rest_framework.response.Response(data, status)\<close>; a response built without a status
  is served as 200.
\<close>

record response =
  data :: json
  status :: nat

definition HTTP_200_OK :: nat where
  "HTTP_200_OK = 200"

definition HTTP_400_BAD_REQUEST :: nat where
  "HTTP_400_BAD_REQUEST = 400"

definition Response :: "json \<Rightarrow> nat \<Rightarrow> response" where
  "Response d s = \<lparr>data = d, status = s\<rparr>"

text \<open>
  Exceptions. \<open>InvalidPage\<close> is everything the clause \<^verbatim>\<open>except InvalidPage\<close> catches
  (\<^verbatim>\<open>django.core.paginator.InvalidPage\<close>); \<open>Http404\<close> is the not-found signal;
  \<open>OtherError\<close> is any other exception, by name.
\<close>

datatype exn = InvalidPage | Http404 | OtherError string

section \<open>Collaborators\<close>

text \<open>
  \<^verbatim>\<open>serializer_factory\<close> receives a whole result set (or page) in \<^verbatim>\<open>list\<close> and one
  entity in \<^verbatim>\<open>retrieve\<close>, through the same parameter \<^verbatim>\<open>queryset\<close>.
\<close>

datatype 'e instance_arg = Many "'e list" | One 'e

text \<open>
  The two serializer classes, as the objects their constructors are called with:
  \<^verbatim>\<open>AlchemyListSerializer(instance, model_class, context, many)\<close> and
  \<^verbatim>\<open>AlchemyModelSerializer(instance, model_class, context)\<close>.
\<close>

datatype ('e, 'm) serializer =
    AlchemyListSerializer "'e instance_arg" 'm request_context bool
  | AlchemyModelSerializer "'e instance_arg" 'm request_context

text \<open>
  The manager: \<^verbatim>\<open>mgr.list(other_pks, filters)\<close>, \<^verbatim>\<open>mgr.retrieve(pks, other_pks)\<close> and
  \<^verbatim>\<open>mgr.model_class()\<close>. Each call returns or raises.
\<close>

record ('e, 'm) manager =
  mgr_list :: "params \<Rightarrow> params \<Rightarrow> exn + 'e list"
  mgr_retrieve :: "string list \<Rightarrow> params \<Rightarrow> exn + 'e"
  mgr_model_class :: "exn + 'm"

text \<open>
  The viewset instance. \<^verbatim>\<open>paginate_by\<close> and \<^verbatim>\<open>get_page\<close> come from
  \<^verbatim>\<open>MultipleObjectMixin\<close>, \<^verbatim>\<open>manager_factory\<close> from \<^verbatim>\<open>ManagerMixin\<close>; both mixins
  and the serializers' \<^verbatim>\<open>data\<close> property live in modules outside
  \<^verbatim>\<open>viewsets.py\<close>, so they are parameters here. \<^verbatim>\<open>get_page\<close> reads the page number
  from the request the framework stored on the instance; the model hands it the request.
\<close>

record ('e, 'm) viewset =
  paginate_by :: "int option"
  manager_factory :: "request_context \<Rightarrow> exn + ('e, 'm) manager"
  get_page :: "request \<Rightarrow> 'e list \<Rightarrow> exn + 'e list"
  serializer_data :: "('e, 'm) serializer \<Rightarrow> exn + json"

text \<open>Python truth of \<^verbatim>\<open>self.paginate_by\<close>: \<^verbatim>\<open>None\<close> and \<^verbatim>\<open>0\<close> are falsy.\<close>

fun truthy :: "int option \<Rightarrow> bool" where
  "truthy None = False"
| "truthy (Some n) = (n \<noteq> 0)"

fun json_of_paginate_by :: "int option \<Rightarrow> json" where
  "json_of_paginate_by None = JNull"
| "json_of_paginate_by (Some n) = JInt n"

section \<open>Calls on collaborators, in order\<close>

text \<open>
  A run of a view method is the list of the calls it made on its collaborators, each
  with whether it returned or raised, and the method's own outcome: the exception that
  left it (\<open>Inl\<close>) or the value it returned (\<open>Inr\<close>).
\<close>

datatype ('e, 'm) call =
    Call_manager_factory request_context
  | Call_list params params
  | Call_retrieve "string list" params
  | Call_get_page "'e list"
  | Call_model_class
  | Call_data "('e, 'm) serializer"

datatype outcome = Returned | Raised exn

type_synonym ('e, 'm) trace = "(('e, 'm) call \<times> outcome) list"

type_synonym ('e, 'm, 'a) run = "('e, 'm) trace \<times> (exn + 'a)"

fun outcome_of :: "exn + 'a \<Rightarrow> outcome" where
  "outcome_of (Inl e) = Raised e"
| "outcome_of (Inr x) = Returned"

definition call :: "('e, 'm) call \<Rightarrow> exn + 'a \<Rightarrow> ('e, 'm, 'a) run" where
  "call c r = ([(c, outcome_of r)], r)"

definition ret :: "'a \<Rightarrow> ('e, 'm, 'a) run" where
  "ret x = ([], Inr x)"

text \<open>Statement sequencing: an exception ends the run, nothing after it is executed.\<close>

definition and_then ::
  "('e, 'm, 'a) run \<Rightarrow> ('a \<Rightarrow> ('e, 'm, 'b) run) \<Rightarrow> ('e, 'm, 'b) run" where
  "and_then m f =
     (case m of
        (t, Inl e) \<Rightarrow> (t, Inl e)
      | (t, Inr x) \<Rightarrow> (case f x of (t', r) \<Rightarrow> (t @ t', r)))"

text \<open>
  \<^verbatim>\<open>try: body  except InvalidPage: handler\<close>. Only \<open>InvalidPage\<close> enters the handler.
\<close>

definition try_except_InvalidPage ::
  "('e, 'm, 'a) run \<Rightarrow> ('e, 'm, 'a) run \<Rightarrow> ('e, 'm, 'a) run" where
  "try_except_InvalidPage body handler =
     (case body of
        (t, Inl e) \<Rightarrow>
          (if e = InvalidPage then (case handler of (t', r) \<Rightarrow> (t @ t', r))
           else (t, Inl e))
      | (t, Inr x) \<Rightarrow> (t, Inr x))"

section \<open>AlchemyModelViewSet\<close>

definition serializer_factory ::
  "('e, 'm) viewset \<Rightarrow> bool \<Rightarrow> 'e instance_arg \<Rightarrow> 'm \<Rightarrow> request_context \<Rightarrow> ('e, 'm) serializer" where
  "serializer_factory self multiple queryset model_class context =
     (if multiple then AlchemyListSerializer queryset model_class context True
      else AlchemyModelSerializer queryset model_class context)"

definition get_other_pks :: "('e, 'm) viewset \<Rightarrow> request \<Rightarrow> params" where
  "get_other_pks self request = []"

definition get_pks :: "('e, 'm) viewset \<Rightarrow> request \<Rightarrow> params \<Rightarrow> string list" where
  "get_pks self request kwargs = map snd kwargs"

text \<open>
  \<^verbatim>\<open>list\<close>. The \<^verbatim>\<open>try\<close> block either leaves the method with the 400 response
  (\<open>Inl\<close>) or goes on with the page (\<open>Inr\<close>).
\<close>

definition list_view ::
  "('e, 'm) viewset \<Rightarrow> request \<Rightarrow> params \<Rightarrow> ('e, 'm, response) run" where
  "list_view self request kwargs =
     and_then (call (Call_manager_factory [(''request'', request)])
                 (manager_factory self [(''request'', request)])) (\<lambda>mgr.
     and_then (call (Call_list (get_other_pks self request) (query_params request))
                 (mgr_list mgr (get_other_pks self request) (query_params request))) (\<lambda>queryset.
     let count = length queryset in
     and_then
       (if truthy (paginate_by self) then
          try_except_InvalidPage
            (and_then (call (Call_get_page queryset) (get_page self request queryset))
               (\<lambda>page. ret (Inr page)))
            (ret (Inl (Response (JDict []) HTTP_400_BAD_REQUEST)))
        else ret (Inr queryset)) (\<lambda>paged.
     case paged of
       Inl early \<Rightarrow> ret early
     | Inr queryset \<Rightarrow>
         and_then (call Call_model_class (mgr_model_class mgr)) (\<lambda>model_class.
         let serializer = serializer_factory self True (Many queryset) model_class
                            [(''request'', request)] in
         and_then (call (Call_data serializer) (serializer_data self serializer)) (\<lambda>d.
         ret (Response (JDict [(''count'', JInt (int count)),
                               (''page'', json_of_paginate_by (paginate_by self)),
                               (''results'', d)]) HTTP_200_OK))))))"

definition retrieve ::
  "('e, 'm) viewset \<Rightarrow> request \<Rightarrow> params \<Rightarrow> ('e, 'm, response) run" where
  "retrieve self request kwargs =
     and_then (call (Call_manager_factory [(''request'', request)])
                 (manager_factory self [(''request'', request)])) (\<lambda>mgr.
     and_then (call (Call_retrieve (get_pks self request kwargs) (get_other_pks self request))
                 (mgr_retrieve mgr (get_pks self request kwargs) (get_other_pks self request)))
       (\<lambda>queryset.
     and_then (call Call_model_class (mgr_model_class mgr)) (\<lambda>model_class.
     let serializer = serializer_factory self False (One queryset) model_class
                        [(''request'', request)] in
     and_then (call (Call_data serializer) (serializer_data self serializer)) (\<lambda>d.
     ret (Response d HTTP_200_OK)))))"

section \<open>Collaborators as the specification describes them\<close>

text \<open>
  Modelled from the spec: \<^verbatim>\<open>MultipleObjectMixin.get_page\<close>
  (\<^verbatim>\<open>djangorest_alchemy/mixins.py\<close>) is missing from the sources. Section 4.3:
  \<^verbatim>\<open>paginate(sequence, page_size, requested_page)\<close> returns a sub-sequence and fails with
  the invalid-page error when the requested page is outside
  \<^verbatim>\<open>[1, ceil(len(sequence)/page_size)]\<close>; pages hold \<^verbatim>\<open>page_size\<close> entities, the last
  one the rest (section 8). It is only invoked with a configured page size; for a page
  size of 0 the spec names no result and the model raises.
\<close>

definition num_pages :: "'e list \<Rightarrow> nat \<Rightarrow> nat" where
  "num_pages sequence page_size = (length sequence + page_size - 1) div page_size"

definition paginate :: "'e list \<Rightarrow> nat \<Rightarrow> int \<Rightarrow> exn + 'e list" where
  "paginate sequence page_size requested_page =
     (if page_size = 0 then Inl (OtherError ''ZeroDivisionError'')
      else if requested_page < 1 \<or> int (num_pages sequence page_size) < requested_page
      then Inl InvalidPage
      else Inr (take page_size (drop ((nat requested_page - 1) * page_size) sequence)))"

text \<open>
  Modelled from the spec: the \<^verbatim>\<open>data\<close> property of \<^verbatim>\<open>AlchemyListSerializer\<close> and
  \<^verbatim>\<open>AlchemyModelSerializer\<close> (\<^verbatim>\<open>djangorest_alchemy/serializers.py\<close>) is missing from
  the sources. Section 4.4: the list serializer produces the ordered sequence of
  per-entity envelopes of the data it wraps, the single serializer one envelope. The
  envelope of one entity (\<open>to_representation\<close>) is the backend's and stays a parameter.
  The spec gives no result for a serializer wrapping data of the other shape, which
  neither view method builds; the model raises there.
\<close>

fun collect :: "(exn + 'a) list \<Rightarrow> exn + 'a list" where
  "collect [] = Inr []"
| "collect (Inl e # rs) = Inl e"
| "collect (Inr x # rs) = (case collect rs of Inl e \<Rightarrow> Inl e | Inr xs \<Rightarrow> Inr (x # xs))"

fun alchemy_data ::
  "('m \<Rightarrow> request_context \<Rightarrow> 'e \<Rightarrow> exn + json) \<Rightarrow> ('e, 'm) serializer \<Rightarrow> exn + json" where
  "alchemy_data to_representation (AlchemyListSerializer (Many es) mc ctx many) =
     (case collect (map (to_representation mc ctx) es) of
        Inl e \<Rightarrow> Inl e
      | Inr envelopes \<Rightarrow> Inr (JList envelopes))"
| "alchemy_data to_representation (AlchemyModelSerializer (One e) mc ctx) =
     to_representation mc ctx e"
| "alchemy_data to_representation (AlchemyListSerializer (One e) mc ctx many) =
     Inl (OtherError ''TypeError'')"
| "alchemy_data to_representation (AlchemyModelSerializer (Many es) mc ctx) =
     Inl (OtherError ''TypeError'')"

text \<open>
  Modelled from the spec: the framework boundary that turns an exception leaving a view
  method into an HTTP status is outside \<^verbatim>\<open>viewsets.py\<close>. Sections 6 and 7: the
  not-found signal becomes a 404 response; for the other failures the spec leaves the
  status to the transport layer's generic handler.
\<close>

fun status_of_failure :: "exn \<Rightarrow> nat option" where
  "status_of_failure Http404 = Some 404"
| "status_of_failure _ = None"

text \<open>
  Modelled from the spec: the status the client is served, for a run's outcome. A returned
  response carries its own status (section 6); an exception is mapped by the framework
  boundary above.
\<close>

fun served_status :: "exn + response \<Rightarrow> nat option" where
  "served_status (Inr r) = Some (status r)"
| "served_status (Inl e) = status_of_failure e"

section \<open>A concrete backend\<close>

text \<open>
  Entities are numbers, the model class is a name. The manager lists a fixed result set
  and retrieves entity 10, when it is listed, under the path key \<^verbatim>\<open>10\<close>.
\<close>

definition demo_to_representation :: "string \<Rightarrow> request_context \<Rightarrow> nat \<Rightarrow> exn + json" where
  "demo_to_representation mc ctx e = Inr (JDict [(''href'', JStr (''/api/'' @ mc)), (''id'', JInt (int e))])"

definition demo_manager :: "nat list \<Rightarrow> (nat, string) manager" where
  "demo_manager es =
     \<lparr>mgr_list = (\<lambda>other_pks filters. Inr es),
      mgr_retrieve = (\<lambda>pks other_pks.
         if pks = [''10''] \<and> 10 \<in> set es then Inr 10 else Inl Http404),
      mgr_model_class = Inr ''models''\<rparr>"

definition failing_manager :: "(nat, string) manager" where
  "failing_manager =
     \<lparr>mgr_list = (\<lambda>other_pks filters. Inl (OtherError ''OperationalError'')),
      mgr_retrieve = (\<lambda>pks other_pks. Inl (OtherError ''OperationalError'')),
      mgr_model_class = Inr ''models''\<rparr>"

definition demo_page_number :: "request \<Rightarrow> int" where
  "demo_page_number request =
     (case map_of (query_params request) ''page'' of
        None \<Rightarrow> 1
      | Some p \<Rightarrow> (if p = ''1'' then 1 else if p = ''2'' then 2 else if p = ''3'' then 3
                   else if p = ''4'' then 4 else 0))"

definition demo_viewset :: "int option \<Rightarrow> (nat, string) manager \<Rightarrow> (nat, string) viewset" where
  "demo_viewset page_size mgr =
     \<lparr>paginate_by = page_size,
      manager_factory = (\<lambda>ctx. Inr mgr),
      get_page = (\<lambda>request queryset.
         paginate queryset (case page_size of None \<Rightarrow> 0 | Some n \<Rightarrow> nat n)
           (demo_page_number request)),
      serializer_data = alchemy_data demo_to_representation\<rparr>"

definition page_request :: "string \<Rightarrow> request" where
  "page_request p = \<lparr>query_params = [(''page'', p)]\<rparr>"

section \<open>Evaluation of the view methods\<close>

lemmas run_defs = and_then_def call_def ret_def try_except_InvalidPage_def

lemmas view_defs = list_view_def retrieve_def run_defs Response_def HTTP_200_OK_def
  HTTP_400_BAD_REQUEST_def get_other_pks_def get_pks_def serializer_factory_def

lemmas demo_defs = demo_viewset_def demo_manager_def failing_manager_def page_request_def
  demo_page_number_def demo_to_representation_def paginate_def num_pages_def

lemma demo_list_page3:
  "list_view (demo_viewset (Some 2) (demo_manager [10, 20, 30, 40, 50])) (page_request ''3'') [] =
     ([(Call_manager_factory [(''request'', page_request ''3'')], Returned),
       (Call_list [] [(''page'', ''3'')], Returned),
       (Call_get_page [10, 20, 30, 40, 50], Returned),
       (Call_model_class, Returned),
       (Call_data (AlchemyListSerializer (Many [50]) ''models''
          [(''request'', page_request ''3'')] True), Returned)],
      Inr (Response (JDict [(''count'', JInt 5), (''page'', JInt 2),
             (''results'', JList [JDict [(''href'', JStr ''/api/models''), (''id'', JInt 50)]])])
           HTTP_200_OK))"
  by (simp add: view_defs demo_defs)

lemma demo_list_page1:
  "list_view (demo_viewset (Some 2) (demo_manager [10, 20, 30, 40, 50])) (page_request ''1'') [] =
     ([(Call_manager_factory [(''request'', page_request ''1'')], Returned),
       (Call_list [] [(''page'', ''1'')], Returned),
       (Call_get_page [10, 20, 30, 40, 50], Returned),
       (Call_model_class, Returned),
       (Call_data (AlchemyListSerializer (Many [10, 20]) ''models''
          [(''request'', page_request ''1'')] True), Returned)],
      Inr (Response (JDict [(''count'', JInt 5), (''page'', JInt 2),
             (''results'', JList [JDict [(''href'', JStr ''/api/models''), (''id'', JInt 10)],
                                  JDict [(''href'', JStr ''/api/models''), (''id'', JInt 20)]])])
           HTTP_200_OK))"
  by (simp add: view_defs demo_defs)

lemma demo_list_page4:
  "list_view (demo_viewset (Some 2) (demo_manager [10, 20, 30, 40, 50])) (page_request ''4'') [] =
     ([(Call_manager_factory [(''request'', page_request ''4'')], Returned),
       (Call_list [] [(''page'', ''4'')], Returned),
       (Call_get_page [10, 20, 30, 40, 50], Raised InvalidPage)],
      Inr (Response (JDict []) HTTP_400_BAD_REQUEST))"
  by (simp add: view_defs demo_defs)

lemma demo_list_page_size_0:
  "list_view (demo_viewset (Some 0) (demo_manager [10, 20, 30])) (page_request ''1'') [] =
     ([(Call_manager_factory [(''request'', page_request ''1'')], Returned),
       (Call_list [] [(''page'', ''1'')], Returned),
       (Call_model_class, Returned),
       (Call_data (AlchemyListSerializer (Many [10, 20, 30]) ''models''
          [(''request'', page_request ''1'')] True), Returned)],
      Inr (Response (JDict [(''count'', JInt 3), (''page'', JInt 0),
             (''results'', JList [JDict [(''href'', JStr ''/api/models''), (''id'', JInt 10)],
                                  JDict [(''href'', JStr ''/api/models''), (''id'', JInt 20)],
                                  JDict [(''href'', JStr ''/api/models''), (''id'', JInt 30)]])])
           HTTP_200_OK))"
  by (simp add: view_defs demo_defs)

lemma demo_list_unset:
  "list_view (demo_viewset None (demo_manager [10, 20, 30])) (page_request ''1'') [] =
     ([(Call_manager_factory [(''request'', page_request ''1'')], Returned),
       (Call_list [] [(''page'', ''1'')], Returned),
       (Call_model_class, Returned),
       (Call_data (AlchemyListSerializer (Many [10, 20, 30]) ''models''
          [(''request'', page_request ''1'')] True), Returned)],
      Inr (Response (JDict [(''count'', JInt 3), (''page'', JNull),
             (''results'', JList [JDict [(''href'', JStr ''/api/models''), (''id'', JInt 10)],
                                  JDict [(''href'', JStr ''/api/models''), (''id'', JInt 20)],
                                  JDict [(''href'', JStr ''/api/models''), (''id'', JInt 30)]])])
           HTTP_200_OK))"
  by (simp add: view_defs demo_defs)

lemma demo_list_empty:
  "list_view (demo_viewset None (demo_manager [])) (page_request ''1'') [] =
     ([(Call_manager_factory [(''request'', page_request ''1'')], Returned),
       (Call_list [] [(''page'', ''1'')], Returned),
       (Call_model_class, Returned),
       (Call_data (AlchemyListSerializer (Many []) ''models''
          [(''request'', page_request ''1'')] True), Returned)],
      Inr (Response (JDict [(''count'', JInt 0), (''page'', JNull), (''results'', JList [])])
           HTTP_200_OK))"
  by (simp add: view_defs demo_defs)

lemma demo_list_failing:
  "list_view (demo_viewset (Some 2) failing_manager) (page_request ''1'') [] =
     ([(Call_manager_factory [(''request'', page_request ''1'')], Returned),
       (Call_list [] [(''page'', ''1'')], Raised (OtherError ''OperationalError''))],
      Inl (OtherError ''OperationalError''))"
  by (simp add: view_defs demo_defs)

lemma demo_retrieve_failing:
  "retrieve (demo_viewset (Some 2) failing_manager) (page_request ''1'') [(''pk'', ''1'')] =
     ([(Call_manager_factory [(''request'', page_request ''1'')], Returned),
       (Call_retrieve [''1''] [], Raised (OtherError ''OperationalError''))],
      Inl (OtherError ''OperationalError''))"
  by (simp add: view_defs demo_defs)

lemma demo_retrieve_missing:
  "retrieve (demo_viewset None (demo_manager [10, 20])) (page_request ''1'') [(''pk'', ''7'')] =
     ([(Call_manager_factory [(''request'', page_request ''1'')], Returned),
       (Call_retrieve [''7''] [], Raised Http404)],
      Inl Http404)"
  by (simp add: view_defs demo_defs)

section \<open>Properties of list\<close>

text \<open>
  C1. When the manager's query yields a result set of N entities, the \<^verbatim>\<open>count\<close> field
  of the envelope that \<^verbatim>\<open>list\<close> returns is N: the length of the whole result set,
  taken before pagination, whatever \<^verbatim>\<open>paginate_by\<close> is and whatever page
  \<^verbatim>\<open>get_page\<close> resolves.
\<close>

theorem list_count_is_full_length:
  assumes "manager_factory self [(''request'', request)] = Inr mgr"
      and "mgr_list mgr (get_other_pks self request) (query_params request) = Inr queryset"
      and "snd (list_view self request kwargs) = Inr resp"
      and "status resp = HTTP_200_OK"
  shows "dict_get (data resp) ''count'' = Some (JInt (int (length queryset)))"
  using assms
  by (auto simp: view_defs Let_def split: sum.splits if_splits prod.splits)

theorem list_count_is_full_length_witness:
  "manager_factory (demo_viewset (Some 2) (demo_manager [10, 20, 30, 40, 50]))
     [(''request'', page_request ''3'')] = Inr (demo_manager [10, 20, 30, 40, 50])
   \<and> mgr_list (demo_manager [10, 20, 30, 40, 50])
       (get_other_pks (demo_viewset (Some 2) (demo_manager [10, 20, 30, 40, 50])) (page_request ''3''))
       (query_params (page_request ''3'')) = Inr [10, 20, 30, 40, 50]
   \<and> snd (list_view (demo_viewset (Some 2) (demo_manager [10, 20, 30, 40, 50])) (page_request ''3'') [])
       = Inr (Response (JDict [(''count'', JInt 5), (''page'', JInt 2),
             (''results'', JList [JDict [(''href'', JStr ''/api/models''), (''id'', JInt 50)]])])
           HTTP_200_OK)
   \<and> dict_get (JDict [(''count'', JInt 5), (''page'', JInt 2),
             (''results'', JList [JDict [(''href'', JStr ''/api/models''), (''id'', JInt 50)]])])
         ''count'' = Some (JInt (int (length [10, 20, 30, 40, 50 :: nat])))"
proof -
  have mf: "manager_factory (demo_viewset (Some 2) (demo_manager [10, 20, 30, 40, 50]))
     [(''request'', page_request ''3'')] = Inr (demo_manager [10, 20, 30, 40, 50])"
    by (simp add: demo_viewset_def)
  have ml: "mgr_list (demo_manager [10, 20, 30, 40, 50])
       (get_other_pks (demo_viewset (Some 2) (demo_manager [10, 20, 30, 40, 50])) (page_request ''3''))
       (query_params (page_request ''3'')) = Inr [10, 20, 30, 40, 50]"
    by (simp add: demo_manager_def)
  have out: "snd (list_view (demo_viewset (Some 2) (demo_manager [10, 20, 30, 40, 50])) (page_request ''3'') [])
       = Inr (Response (JDict [(''count'', JInt 5), (''page'', JInt 2),
             (''results'', JList [JDict [(''href'', JStr ''/api/models''), (''id'', JInt 50)]])])
           HTTP_200_OK)"
    by (simp add: demo_list_page3)
  have st: "status (Response (JDict [(''count'', JInt 5), (''page'', JInt 2),
             (''results'', JList [JDict [(''href'', JStr ''/api/models''), (''id'', JInt 50)]])])
           HTTP_200_OK) = HTTP_200_OK"
    by (simp add: Response_def)
  from list_count_is_full_length [OF mf ml out st] mf ml out
  show ?thesis by (simp add: Response_def)
qed

text \<open>
  C2. With pagination enabled, when \<^verbatim>\<open>get_page\<close> raises \<open>InvalidPage\<close>, \<^verbatim>\<open>list\<close>
  returns the response with status 400 and body \<^verbatim>\<open>{}\<close>; the run ends with the call
  of \<^verbatim>\<open>get_page\<close>, so no serializer's data is computed.
\<close>

theorem list_invalid_page_is_400:
  assumes "manager_factory self [(''request'', request)] = Inr mgr"
      and "mgr_list mgr (get_other_pks self request) (query_params request) = Inr queryset"
      and "truthy (paginate_by self)"
      and "get_page self request queryset = Inl InvalidPage"
  shows "list_view self request kwargs =
           ([(Call_manager_factory [(''request'', request)], Returned),
             (Call_list [] (query_params request), Returned),
             (Call_get_page queryset, Raised InvalidPage)],
            Inr (Response (JDict []) HTTP_400_BAD_REQUEST))
         \<and> (\<forall>s out. (Call_data s, out) \<notin> set (fst (list_view self request kwargs)))"
  using assms
  by (simp add: view_defs)

theorem list_invalid_page_is_400_witness:
  "manager_factory (demo_viewset (Some 2) (demo_manager [10, 20, 30, 40, 50]))
     [(''request'', page_request ''4'')] = Inr (demo_manager [10, 20, 30, 40, 50])
   \<and> mgr_list (demo_manager [10, 20, 30, 40, 50])
       (get_other_pks (demo_viewset (Some 2) (demo_manager [10, 20, 30, 40, 50])) (page_request ''4''))
       (query_params (page_request ''4'')) = Inr [10, 20, 30, 40, 50]
   \<and> truthy (paginate_by (demo_viewset (Some 2) (demo_manager [10, 20, 30, 40, 50])))
   \<and> get_page (demo_viewset (Some 2) (demo_manager [10, 20, 30, 40, 50])) (page_request ''4'')
       [10, 20, 30, 40, 50] = Inl InvalidPage
   \<and> snd (list_view (demo_viewset (Some 2) (demo_manager [10, 20, 30, 40, 50])) (page_request ''4'') [])
       = Inr \<lparr>data = JDict [], status = 400\<rparr>"
proof -
  have mf: "manager_factory (demo_viewset (Some 2) (demo_manager [10, 20, 30, 40, 50]))
     [(''request'', page_request ''4'')] = Inr (demo_manager [10, 20, 30, 40, 50])"
    by (simp add: demo_viewset_def)
  have ml: "mgr_list (demo_manager [10, 20, 30, 40, 50])
       (get_other_pks (demo_viewset (Some 2) (demo_manager [10, 20, 30, 40, 50])) (page_request ''4''))
       (query_params (page_request ''4'')) = Inr [10, 20, 30, 40, 50]"
    by (simp add: demo_manager_def)
  have tr: "truthy (paginate_by (demo_viewset (Some 2) (demo_manager [10, 20, 30, 40, 50])))"
    by (simp add: demo_viewset_def)
  have gp: "get_page (demo_viewset (Some 2) (demo_manager [10, 20, 30, 40, 50])) (page_request ''4'')
       [10, 20, 30, 40, 50] = Inl InvalidPage"
    by (simp add: demo_defs)
  from list_invalid_page_is_400 [OF mf ml tr gp, of "[]"] mf ml tr gp
  show ?thesis
    by (simp add: Response_def HTTP_400_BAD_REQUEST_def)
qed

section \<open>Helper facts\<close>

lemma collect_length: "collect rs = Inr xs \<Longrightarrow> length xs = length rs"
  by (induction rs arbitrary: xs rule: collect.induct) (auto split: sum.splits)

lemma collect_map_length: "collect (map f es) = Inr xs \<Longrightarrow> length xs = length es"
  using collect_length [of "map f es" xs] by simp

lemma alchemy_data_Many:
  "alchemy_data rep (AlchemyListSerializer (Many es) mc ctx many) = Inr d \<Longrightarrow>
     \<exists>envelopes. d = JList envelopes \<and> length envelopes = length es"
  by (auto split: sum.splits dest: collect_length)

lemma subseq_take: "subseq (take n ys) ys"
proof -
  have "subseq (take n ys) (take n ys @ drop n ys)"
    by (rule subseq_rev_drop_many) simp
  then show ?thesis
    by (simp only: append_take_drop_id)
qed

lemma subseq_drop: "subseq (drop k xs) xs"
proof -
  have "subseq (drop k xs) (take k xs @ drop k xs)"
    by (rule subseq_drop_many) simp
  then show ?thesis
    by (simp only: append_take_drop_id)
qed

lemma subseq_take_drop: "subseq (take n (drop k xs)) xs"
  using subseq_take [of n "drop k xs"] subseq_drop [of k xs]
  by (rule subseq_order.trans)

lemma paginate_subseq: "paginate sequence page_size requested_page = Inr page \<Longrightarrow> subseq page sequence"
  by (auto simp: paginate_def subseq_take_drop split: if_splits)

lemma list_view_ok_cases:
  assumes "snd (list_view self request kwargs) = Inr resp"
      and "status resp = HTTP_200_OK"
  shows "\<exists>mgr queryset page mc d.
           manager_factory self [(''request'', request)] = Inr mgr
         \<and> mgr_list mgr [] (query_params request) = Inr queryset
         \<and> (if truthy (paginate_by self) then get_page self request queryset = Inr page
             else page = queryset)
         \<and> mgr_model_class mgr = Inr mc
         \<and> serializer_data self
              (AlchemyListSerializer (Many page) mc [(''request'', request)] True) = Inr d
         \<and> resp = Response (JDict [(''count'', JInt (int (length queryset))),
                                   (''page'', json_of_paginate_by (paginate_by self)),
                                   (''results'', d)]) HTTP_200_OK"
  using assms
  by (auto simp: view_defs Let_def split: sum.splits if_splits prod.splits)

section \<open>The envelope of list\<close>

text \<open>
  C6 (as stated). The claim says that with a falsy page size the \<^verbatim>\<open>page\<close> field is the null marker.
  A page size of 0 is falsy, pagination is skipped, and the field is 0, not null.
\<close>

theorem list_page_size_0_counterexample:
  "\<not> truthy (paginate_by (demo_viewset (Some 0) (demo_manager [10, 20, 30])))
   \<and> snd (list_view (demo_viewset (Some 0) (demo_manager [10, 20, 30])) (page_request ''1'') [])
       = Inr (Response (JDict [(''count'', JInt 3), (''page'', JInt 0),
             (''results'', JList [JDict [(''href'', JStr ''/api/models''), (''id'', JInt 10)],
                                  JDict [(''href'', JStr ''/api/models''), (''id'', JInt 20)],
                                  JDict [(''href'', JStr ''/api/models''), (''id'', JInt 30)]])])
           HTTP_200_OK)
   \<and> dict_get (JDict [(''count'', JInt 3), (''page'', JInt 0),
             (''results'', JList [JDict [(''href'', JStr ''/api/models''), (''id'', JInt 10)],
                                  JDict [(''href'', JStr ''/api/models''), (''id'', JInt 20)],
                                  JDict [(''href'', JStr ''/api/models''), (''id'', JInt 30)]])])
        ''page'' \<noteq> Some JNull"
  by (simp add: demo_list_page_size_0) (simp add: demo_viewset_def)

text \<open>
  C6 (amended). When \<^verbatim>\<open>paginate_by\<close> is falsy, \<^verbatim>\<open>get_page\<close> is never called; a
  returned response is the envelope whose \<^verbatim>\<open>count\<close> is the size N of the manager's
  result set, whose \<^verbatim>\<open>results\<close> is the data of the list serializer built on that whole
  result set (N envelopes, for the list serializer of the spec), and whose \<^verbatim>\<open>page\<close> is
  the configured value itself: null when the page size is unset, 0 when it is 0.
\<close>

theorem list_without_pagination:
  assumes "\<not> truthy (paginate_by self)"
  shows "(\<forall>qs out. (Call_get_page qs, out) \<notin> set (fst (list_view self request kwargs)))
       \<and> (\<forall>resp. snd (list_view self request kwargs) = Inr resp \<longrightarrow>
            (\<exists>mgr queryset mc d.
                manager_factory self [(''request'', request)] = Inr mgr
              \<and> mgr_list mgr [] (query_params request) = Inr queryset
              \<and> mgr_model_class mgr = Inr mc
              \<and> serializer_data self
                   (AlchemyListSerializer (Many queryset) mc [(''request'', request)] True) = Inr d
              \<and> resp = Response (JDict [(''count'', JInt (int (length queryset))),
                                        (''page'', json_of_paginate_by (paginate_by self)),
                                        (''results'', d)]) HTTP_200_OK
              \<and> (serializer_data self = alchemy_data to_representation \<longrightarrow>
                   (\<exists>envelopes. d = JList envelopes \<and> length envelopes = length queryset))))
       \<and> (paginate_by self = None \<and> json_of_paginate_by (paginate_by self) = JNull
            \<or> paginate_by self = Some 0 \<and> json_of_paginate_by (paginate_by self) = JInt 0)"
proof (intro conjI allI impI)
  fix qs out
  from assms show "(Call_get_page qs, out) \<notin> set (fst (list_view self request kwargs))"
    by (auto simp: view_defs Let_def split: sum.splits prod.splits)
next
  fix resp
  assume "snd (list_view self request kwargs) = Inr resp"
  with assms obtain mgr queryset mc d where
    run: "manager_factory self [(''request'', request)] = Inr mgr"
      "mgr_list mgr [] (query_params request) = Inr queryset"
      "mgr_model_class mgr = Inr mc"
      "serializer_data self
         (AlchemyListSerializer (Many queryset) mc [(''request'', request)] True) = Inr d"
      "resp = Response (JDict [(''count'', JInt (int (length queryset))),
                               (''page'', json_of_paginate_by (paginate_by self)),
                               (''results'', d)]) HTTP_200_OK"
    by (auto simp: view_defs Let_def split: sum.splits prod.splits)
  have "\<exists>envelopes. d = JList envelopes \<and> length envelopes = length queryset"
    if spec: "serializer_data self = alchemy_data to_representation"
  proof -
    from run(4) have "alchemy_data to_representation
         (AlchemyListSerializer (Many queryset) mc [(''request'', request)] True) = Inr d"
      by (simp only: spec)
    then show ?thesis
      by (rule alchemy_data_Many)
  qed
  with run show "\<exists>mgr queryset mc d.
                manager_factory self [(''request'', request)] = Inr mgr
              \<and> mgr_list mgr [] (query_params request) = Inr queryset
              \<and> mgr_model_class mgr = Inr mc
              \<and> serializer_data self
                   (AlchemyListSerializer (Many queryset) mc [(''request'', request)] True) = Inr d
              \<and> resp = Response (JDict [(''count'', JInt (int (length queryset))),
                                        (''page'', json_of_paginate_by (paginate_by self)),
                                        (''results'', d)]) HTTP_200_OK
              \<and> (serializer_data self = alchemy_data to_representation \<longrightarrow>
                   (\<exists>envelopes. d = JList envelopes \<and> length envelopes = length queryset))"
    by blast
next
  from assms show "paginate_by self = None \<and> json_of_paginate_by (paginate_by self) = JNull
            \<or> paginate_by self = Some 0 \<and> json_of_paginate_by (paginate_by self) = JInt 0"
    by (cases "paginate_by self") auto
qed

theorem list_without_pagination_witness:
  "\<not> truthy (paginate_by (demo_viewset None (demo_manager [10, 20, 30])))
   \<and> snd (list_view (demo_viewset None (demo_manager [10, 20, 30])) (page_request ''1'') [])
       = Inr (Response (JDict [(''count'', JInt 3), (''page'', JNull),
             (''results'', JList [JDict [(''href'', JStr ''/api/models''), (''id'', JInt 10)],
                                  JDict [(''href'', JStr ''/api/models''), (''id'', JInt 20)],
                                  JDict [(''href'', JStr ''/api/models''), (''id'', JInt 30)]])])
           HTTP_200_OK)
   \<and> serializer_data (demo_viewset None (demo_manager [10, 20, 30]))
       = alchemy_data demo_to_representation
   \<and> (Call_get_page [10, 20, 30], Returned)
       \<notin> set (fst (list_view (demo_viewset None (demo_manager [10, 20, 30])) (page_request ''1'') []))
   \<and> json_of_paginate_by (paginate_by (demo_viewset None (demo_manager [10, 20, 30]))) = JNull"
proof -
  have falsy: "\<not> truthy (paginate_by (demo_viewset None (demo_manager [10, 20, 30])))"
    by (simp add: demo_viewset_def)
  have sd: "serializer_data (demo_viewset None (demo_manager [10, 20, 30]))
       = alchemy_data demo_to_representation"
    by (simp add: demo_viewset_def)
  have out: "snd (list_view (demo_viewset None (demo_manager [10, 20, 30])) (page_request ''1'') [])
       = Inr (Response (JDict [(''count'', JInt 3), (''page'', JNull),
             (''results'', JList [JDict [(''href'', JStr ''/api/models''), (''id'', JInt 10)],
                                  JDict [(''href'', JStr ''/api/models''), (''id'', JInt 20)],
                                  JDict [(''href'', JStr ''/api/models''), (''id'', JInt 30)]])])
           HTTP_200_OK)"
    by (simp add: demo_list_unset)
  have null: "json_of_paginate_by (paginate_by (demo_viewset None (demo_manager [10, 20, 30])))
      = JNull"
    by (simp add: demo_viewset_def)
  from list_without_pagination [OF falsy, of "page_request ''1''" "[]" demo_to_representation]
  have "(Call_get_page [10, 20, 30], Returned)
       \<notin> set (fst (list_view (demo_viewset None (demo_manager [10, 20, 30])) (page_request ''1'') []))"
    by blast
  with falsy sd out null show ?thesis
    by blast
qed

text \<open>
  C7. The body of every successful list response has exactly the keys \<^verbatim>\<open>count\<close>,
  \<^verbatim>\<open>page\<close> and \<^verbatim>\<open>results\<close>. With the list serializer of the spec and a
  \<^verbatim>\<open>get_page\<close> that returns sub-sequences, a \<^verbatim>\<open>count\<close> of 0 comes with
  \<^verbatim>\<open>results == []\<close>.
\<close>

theorem list_envelope_shape:
  assumes "snd (list_view self request kwargs) = Inr resp"
      and "status resp = HTTP_200_OK"
  shows "dict_keys (data resp) = [''count'', ''page'', ''results'']
         \<and> (serializer_data self = alchemy_data to_representation
              \<and> (\<forall>qs page. get_page self request qs = Inr page \<longrightarrow> subseq page qs)
              \<and> dict_get (data resp) ''count'' = Some (JInt 0)
            \<longrightarrow> dict_get (data resp) ''results'' = Some (JList []))"
proof -
  from list_view_ok_cases [OF assms]
  obtain mgr queryset page mc d where
    gp: "if truthy (paginate_by self) then get_page self request queryset = Inr page
         else page = queryset"
    and sd: "serializer_data self
              (AlchemyListSerializer (Many page) mc [(''request'', request)] True) = Inr d"
    and resp: "resp = Response (JDict [(''count'', JInt (int (length queryset))),
                                   (''page'', json_of_paginate_by (paginate_by self)),
                                   (''results'', d)]) HTTP_200_OK"
    by blast
  have keys: "dict_keys (data resp) = [''count'', ''page'', ''results'']"
    by (simp add: resp Response_def)
  have empty: "dict_get (data resp) ''results'' = Some (JList [])"
    if spec: "serializer_data self = alchemy_data to_representation"
    and sub: "\<forall>qs page. get_page self request qs = Inr page \<longrightarrow> subseq page qs"
    and zero: "dict_get (data resp) ''count'' = Some (JInt 0)"
  proof -
    from zero have "queryset = []"
      by (simp add: resp Response_def)
    with gp sub have "subseq page []"
      by (auto split: if_splits)
    then have "page = []"
      by simp
    with sd spec have "d = JList []"
      by simp
    then show ?thesis
      by (simp add: resp Response_def)
  qed
  from keys empty show ?thesis
    by blast
qed

theorem list_envelope_shape_witness:
  "snd (list_view (demo_viewset None (demo_manager [])) (page_request ''1'') [])
     = Inr (Response (JDict [(''count'', JInt 0), (''page'', JNull), (''results'', JList [])])
            HTTP_200_OK)
   \<and> status (Response (JDict [(''count'', JInt 0), (''page'', JNull), (''results'', JList [])])
            HTTP_200_OK) = HTTP_200_OK
   \<and> serializer_data (demo_viewset None (demo_manager [])) = alchemy_data demo_to_representation
   \<and> dict_get (data (Response (JDict [(''count'', JInt 0), (''page'', JNull),
          (''results'', JList [])]) HTTP_200_OK)) ''count'' = Some (JInt 0)
   \<and> dict_keys (data (Response (JDict [(''count'', JInt 0), (''page'', JNull),
          (''results'', JList [])]) HTTP_200_OK)) = [''count'', ''page'', ''results'']
   \<and> dict_get (data (Response (JDict [(''count'', JInt 0), (''page'', JNull),
          (''results'', JList [])]) HTTP_200_OK)) ''results'' = Some (JList [])"
proof -
  have out: "snd (list_view (demo_viewset None (demo_manager [])) (page_request ''1'') [])
     = Inr (Response (JDict [(''count'', JInt 0), (''page'', JNull), (''results'', JList [])])
            HTTP_200_OK)"
    by (simp add: demo_list_empty)
  have st: "status (Response (JDict [(''count'', JInt 0), (''page'', JNull),
      (''results'', JList [])]) HTTP_200_OK) = HTTP_200_OK"
    by (simp add: Response_def)
  have sd: "serializer_data (demo_viewset None (demo_manager []))
      = alchemy_data demo_to_representation"
    by (simp add: demo_viewset_def)
  have sub: "\<forall>qs page. get_page (demo_viewset None (demo_manager [])) (page_request ''1'') qs
      = Inr page \<longrightarrow> subseq page qs"
    by (auto simp: demo_viewset_def dest: paginate_subseq)
  have zero: "dict_get (data (Response (JDict [(''count'', JInt 0), (''page'', JNull),
          (''results'', JList [])]) HTTP_200_OK)) ''count'' = Some (JInt 0)"
    by (simp add: Response_def)
  from list_envelope_shape [OF out st, of demo_to_representation] sd sub zero out st
  show ?thesis
    by blast
qed

text \<open>
  C8. The run of \<^verbatim>\<open>list\<close> calls \<^verbatim>\<open>mgr.list\<close> with
  \<^verbatim>\<open>filters = request.query_params\<close>, the mapping itself, and with the empty
  \<^verbatim>\<open>other_pks\<close>; it makes no other call of \<^verbatim>\<open>mgr.list\<close>. And \<^verbatim>\<open>list\<close>
  reads no filter itself: two requests, however their query parameters differ, that get
  the same answers from the collaborators (manager, \<^verbatim>\<open>get_page\<close>, serializer data)
  have the same outcome.
\<close>

theorem list_filters_pass_through:
  assumes "manager_factory self [(''request'', request)] = Inr mgr"
  shows "(Call_list [] (query_params request),
            outcome_of (mgr_list mgr [] (query_params request)))
           \<in> set (fst (list_view self request kwargs))
         \<and> (\<forall>other_pks filters out.
               (Call_list other_pks filters, out) \<in> set (fst (list_view self request kwargs)) \<longrightarrow>
               filters = query_params request \<and> other_pks = []
               \<and> out = outcome_of (mgr_list mgr [] (query_params request)))
         \<and> (\<forall>request' kwargs' mgr'.
               manager_factory self [(''request'', request')] = Inr mgr'
               \<and> mgr_list mgr' [] (query_params request') = mgr_list mgr [] (query_params request)
               \<and> mgr_model_class mgr' = mgr_model_class mgr
               \<and> (\<forall>qs. get_page self request' qs = get_page self request qs)
               \<and> (\<forall>queryset model_class many.
                     serializer_data self
                       (AlchemyListSerializer queryset model_class [(''request'', request')] many)
                   = serializer_data self
                       (AlchemyListSerializer queryset model_class [(''request'', request)] many))
               \<longrightarrow> snd (list_view self request' kwargs') = snd (list_view self request kwargs))"
proof -
  from assms have made: "(Call_list [] (query_params request),
            outcome_of (mgr_list mgr [] (query_params request)))
           \<in> set (fst (list_view self request kwargs))"
    by (auto simp: view_defs Let_def split: sum.splits if_splits prod.splits)
  from assms have only: "\<forall>other_pks filters out.
               (Call_list other_pks filters, out) \<in> set (fst (list_view self request kwargs)) \<longrightarrow>
               filters = query_params request \<and> other_pks = []
               \<and> out = outcome_of (mgr_list mgr [] (query_params request))"
    by (auto simp: view_defs Let_def split: sum.splits if_splits prod.splits)
  have same: "snd (list_view self request' kwargs') = snd (list_view self request kwargs)"
    if "manager_factory self [(''request'', request')] = Inr mgr'"
      and "mgr_list mgr' [] (query_params request') = mgr_list mgr [] (query_params request)"
      and "mgr_model_class mgr' = mgr_model_class mgr"
      and "\<forall>qs. get_page self request' qs = get_page self request qs"
      and "\<forall>queryset model_class many.
             serializer_data self
               (AlchemyListSerializer queryset model_class [(''request'', request')] many)
           = serializer_data self
               (AlchemyListSerializer queryset model_class [(''request'', request)] many)"
    for request' kwargs' mgr'
    using assms that
    by (auto simp: view_defs Let_def split: sum.splits prod.splits)
  from made only same show ?thesis
    by blast
qed

theorem list_filters_pass_through_witness:
  "manager_factory (demo_viewset (Some 2) (demo_manager [10, 20, 30, 40, 50]))
      [(''request'', page_request ''3'')] = Inr (demo_manager [10, 20, 30, 40, 50])
   \<and> (Call_list [] [(''page'', ''3'')], Returned)
       \<in> set (fst (list_view (demo_viewset (Some 2) (demo_manager [10, 20, 30, 40, 50]))
                     (page_request ''3'') []))
   \<and> query_params (page_request ''3'') = [(''page'', ''3'')]
   \<and> manager_factory (demo_viewset (Some 2) (demo_manager [10, 20, 30, 40, 50]))
        [(''request'', \<lparr>query_params = [(''page'', ''3''), (''colour'', ''red'')]\<rparr>)]
       = Inr (demo_manager [10, 20, 30, 40, 50])
   \<and> (Call_list [] [(''page'', ''3''), (''colour'', ''red'')], Returned)
       \<in> set (fst (list_view (demo_viewset (Some 2) (demo_manager [10, 20, 30, 40, 50]))
                     \<lparr>query_params = [(''page'', ''3''), (''colour'', ''red'')]\<rparr> []))
   \<and> query_params \<lparr>query_params = [(''page'', ''3''), (''colour'', ''red'')]\<rparr>
       \<noteq> query_params (page_request ''3'')
   \<and> snd (list_view (demo_viewset (Some 2) (demo_manager [10, 20, 30, 40, 50]))
             \<lparr>query_params = [(''page'', ''3''), (''colour'', ''red'')]\<rparr> [])
       = snd (list_view (demo_viewset (Some 2) (demo_manager [10, 20, 30, 40, 50]))
               (page_request ''3'') [])"
proof -
  have mf: "manager_factory (demo_viewset (Some 2) (demo_manager [10, 20, 30, 40, 50]))
      [(''request'', page_request ''3'')] = Inr (demo_manager [10, 20, 30, 40, 50])"
    by (simp add: demo_viewset_def)
  have mf': "manager_factory (demo_viewset (Some 2) (demo_manager [10, 20, 30, 40, 50]))
        [(''request'', \<lparr>query_params = [(''page'', ''3''), (''colour'', ''red'')]\<rparr>)]
       = Inr (demo_manager [10, 20, 30, 40, 50])"
    by (simp add: demo_viewset_def)
  have qp: "query_params (page_request ''3'') = [(''page'', ''3'')]"
    by (simp add: page_request_def)
  have ne: "query_params \<lparr>query_params = [(''page'', ''3''), (''colour'', ''red'')]\<rparr>
       \<noteq> query_params (page_request ''3'')"
    by (simp add: page_request_def)
  have ret: "outcome_of (mgr_list (demo_manager [10, 20, 30, 40, 50]) []
          (query_params (page_request ''3''))) = Returned"
    by (simp add: demo_manager_def)
  have ret': "outcome_of (mgr_list (demo_manager [10, 20, 30, 40, 50]) []
          (query_params \<lparr>query_params = [(''page'', ''3''), (''colour'', ''red'')]\<rparr>)) = Returned"
    by (simp add: demo_manager_def)
  have ml: "mgr_list (demo_manager [10, 20, 30, 40, 50]) []
          (query_params \<lparr>query_params = [(''page'', ''3''), (''colour'', ''red'')]\<rparr>)
       = mgr_list (demo_manager [10, 20, 30, 40, 50]) [] (query_params (page_request ''3''))"
    by (simp add: demo_manager_def)
  have gp: "\<forall>qs. get_page (demo_viewset (Some 2) (demo_manager [10, 20, 30, 40, 50]))
               \<lparr>query_params = [(''page'', ''3''), (''colour'', ''red'')]\<rparr> qs
           = get_page (demo_viewset (Some 2) (demo_manager [10, 20, 30, 40, 50]))
               (page_request ''3'') qs"
    by (simp add: demo_viewset_def demo_page_number_def page_request_def)
  have sd: "\<forall>queryset model_class many.
       serializer_data (demo_viewset (Some 2) (demo_manager [10, 20, 30, 40, 50]))
         (AlchemyListSerializer queryset model_class
            [(''request'', \<lparr>query_params = [(''page'', ''3''), (''colour'', ''red'')]\<rparr>)] many)
     = serializer_data (demo_viewset (Some 2) (demo_manager [10, 20, 30, 40, 50]))
         (AlchemyListSerializer queryset model_class [(''request'', page_request ''3'')] many)"
  proof (intro allI)
    fix queryset :: "nat instance_arg" and model_class :: string and many :: bool
    show "serializer_data (demo_viewset (Some 2) (demo_manager [10, 20, 30, 40, 50]))
         (AlchemyListSerializer queryset model_class
            [(''request'', \<lparr>query_params = [(''page'', ''3''), (''colour'', ''red'')]\<rparr>)] many)
     = serializer_data (demo_viewset (Some 2) (demo_manager [10, 20, 30, 40, 50]))
         (AlchemyListSerializer queryset model_class [(''request'', page_request ''3'')] many)"
    proof -
      have "demo_to_representation model_class
              [(''request'', \<lparr>query_params = [(''page'', ''3''), (''colour'', ''red'')]\<rparr>)]
          = demo_to_representation model_class [(''request'', page_request ''3'')]"
        by (rule ext) (simp add: demo_to_representation_def)
      then show ?thesis
        by (cases queryset) (simp_all add: demo_viewset_def)
    qed
  qed
  note first = list_filters_pass_through [OF mf, of "[]"]
  note second = list_filters_pass_through [OF mf', of "[]"]
  from first ret qp have c1: "(Call_list [] [(''page'', ''3'')], Returned)
       \<in> set (fst (list_view (demo_viewset (Some 2) (demo_manager [10, 20, 30, 40, 50]))
                     (page_request ''3'') []))"
    by simp
  from second ret' have c2: "(Call_list [] [(''page'', ''3''), (''colour'', ''red'')], Returned)
       \<in> set (fst (list_view (demo_viewset (Some 2) (demo_manager [10, 20, 30, 40, 50]))
                     \<lparr>query_params = [(''page'', ''3''), (''colour'', ''red'')]\<rparr> []))"
    by simp
  from first mf' ml gp sd
  have eq: "snd (list_view (demo_viewset (Some 2) (demo_manager [10, 20, 30, 40, 50]))
             \<lparr>query_params = [(''page'', ''3''), (''colour'', ''red'')]\<rparr> [])
       = snd (list_view (demo_viewset (Some 2) (demo_manager [10, 20, 30, 40, 50]))
               (page_request ''3'') [])"
    by blast
  from mf c1 qp mf' c2 ne eq show ?thesis
    by blast
qed

text \<open>
  C10. In every successful list response the \<^verbatim>\<open>page\<close> field is the viewset's
  \<^verbatim>\<open>paginate_by\<close>; two successful list requests on the same viewset, whatever pages
  they ask for, carry the same \<^verbatim>\<open>page\<close> value.
\<close>

theorem list_page_field_is_page_size:
  assumes "snd (list_view self request1 kwargs1) = Inr resp1"
      and "status resp1 = HTTP_200_OK"
      and "snd (list_view self request2 kwargs2) = Inr resp2"
      and "status resp2 = HTTP_200_OK"
  shows "dict_get (data resp1) ''page'' = Some (json_of_paginate_by (paginate_by self))
         \<and> dict_get (data resp2) ''page'' = dict_get (data resp1) ''page''"
proof -
  from list_view_ok_cases [OF assms(1,2)]
  have p1: "dict_get (data resp1) ''page'' = Some (json_of_paginate_by (paginate_by self))"
    by (auto simp: Response_def)
  from list_view_ok_cases [OF assms(3,4)]
  have p2: "dict_get (data resp2) ''page'' = Some (json_of_paginate_by (paginate_by self))"
    by (auto simp: Response_def)
  from p1 p2 show ?thesis
    by simp
qed

theorem list_page_field_is_page_size_witness:
  "snd (list_view (demo_viewset (Some 2) (demo_manager [10, 20, 30, 40, 50])) (page_request ''1'') [])
     = Inr (Response (JDict [(''count'', JInt 5), (''page'', JInt 2),
             (''results'', JList [JDict [(''href'', JStr ''/api/models''), (''id'', JInt 10)],
                                  JDict [(''href'', JStr ''/api/models''), (''id'', JInt 20)]])])
           HTTP_200_OK)
   \<and> snd (list_view (demo_viewset (Some 2) (demo_manager [10, 20, 30, 40, 50])) (page_request ''3'') [])
     = Inr (Response (JDict [(''count'', JInt 5), (''page'', JInt 2),
             (''results'', JList [JDict [(''href'', JStr ''/api/models''), (''id'', JInt 50)]])])
           HTTP_200_OK)
   \<and> dict_get (data (Response (JDict [(''count'', JInt 5), (''page'', JInt 2),
             (''results'', JList [JDict [(''href'', JStr ''/api/models''), (''id'', JInt 10)],
                                  JDict [(''href'', JStr ''/api/models''), (''id'', JInt 20)]])])
           HTTP_200_OK)) ''page'' = Some (JInt 2)
   \<and> dict_get (data (Response (JDict [(''count'', JInt 5), (''page'', JInt 2),
             (''results'', JList [JDict [(''href'', JStr ''/api/models''), (''id'', JInt 50)]])])
           HTTP_200_OK)) ''page'' = Some (JInt 2)"
proof -
  have o1: "snd (list_view (demo_viewset (Some 2) (demo_manager [10, 20, 30, 40, 50]))
                   (page_request ''1'') [])
     = Inr (Response (JDict [(''count'', JInt 5), (''page'', JInt 2),
             (''results'', JList [JDict [(''href'', JStr ''/api/models''), (''id'', JInt 10)],
                                  JDict [(''href'', JStr ''/api/models''), (''id'', JInt 20)]])])
           HTTP_200_OK)"
    by (simp add: demo_list_page1)
  have o3: "snd (list_view (demo_viewset (Some 2) (demo_manager [10, 20, 30, 40, 50]))
                   (page_request ''3'') [])
     = Inr (Response (JDict [(''count'', JInt 5), (''page'', JInt 2),
             (''results'', JList [JDict [(''href'', JStr ''/api/models''), (''id'', JInt 50)]])])
           HTTP_200_OK)"
    by (simp add: demo_list_page3)
  have s1: "status (Response (JDict [(''count'', JInt 5), (''page'', JInt 2),
             (''results'', JList [JDict [(''href'', JStr ''/api/models''), (''id'', JInt 10)],
                                  JDict [(''href'', JStr ''/api/models''), (''id'', JInt 20)]])])
           HTTP_200_OK) = HTTP_200_OK"
    by (simp add: Response_def)
  have s3: "status (Response (JDict [(''count'', JInt 5), (''page'', JInt 2),
             (''results'', JList [JDict [(''href'', JStr ''/api/models''), (''id'', JInt 50)]])])
           HTTP_200_OK) = HTTP_200_OK"
    by (simp add: Response_def)
  have pb: "json_of_paginate_by
      (paginate_by (demo_viewset (Some 2) (demo_manager [10, 20, 30, 40, 50]))) = JInt 2"
    by (simp add: demo_viewset_def)
  from list_page_field_is_page_size [OF o1 s1 o3 s3] pb o1 o3 show ?thesis
    by simp
qed

section \<open>Failures\<close>

text \<open>
  C3. A collaborator call that raises ends the run. When the call is \<^verbatim>\<open>get_page\<close>
  and the exception is \<open>InvalidPage\<close>, \<^verbatim>\<open>list\<close> returns the 400 response; in every
  other case, in \<^verbatim>\<open>list\<close> and in \<^verbatim>\<open>retrieve\<close>, the method is left by that very
  exception. An exception leaving a method is the one its last call raised, and no call
  is made twice.
\<close>

theorem only_invalid_page_is_recovered:
  "(\<forall>c e. (c, Raised e) \<in> set (fst (list_view self request kwargs)) \<longrightarrow>
      (if (\<exists>qs. c = Call_get_page qs) \<and> e = InvalidPage
       then snd (list_view self request kwargs) = Inr (Response (JDict []) HTTP_400_BAD_REQUEST)
       else snd (list_view self request kwargs) = Inl e))
   \<and> (\<forall>c e. (c, Raised e) \<in> set (fst (retrieve self request kwargs)) \<longrightarrow>
         snd (retrieve self request kwargs) = Inl e)
   \<and> (\<forall>e. snd (list_view self request kwargs) = Inl e \<longrightarrow>
         (\<exists>c. fst (list_view self request kwargs) \<noteq> []
            \<and> last (fst (list_view self request kwargs)) = (c, Raised e)))
   \<and> (\<forall>e. snd (retrieve self request kwargs) = Inl e \<longrightarrow>
         (\<exists>c. fst (retrieve self request kwargs) \<noteq> []
            \<and> last (fst (retrieve self request kwargs)) = (c, Raised e)))
   \<and> distinct (map fst (fst (list_view self request kwargs)))
   \<and> distinct (map fst (fst (retrieve self request kwargs)))"
  by (auto simp: view_defs Let_def split: sum.splits if_splits prod.splits)

theorem only_invalid_page_is_recovered_witness:
  "(Call_list [] [(''page'', ''1'')], Raised (OtherError ''OperationalError''))
     \<in> set (fst (list_view (demo_viewset (Some 2) failing_manager) (page_request ''1'') []))
   \<and> snd (list_view (demo_viewset (Some 2) failing_manager) (page_request ''1'') [])
       = Inl (OtherError ''OperationalError'')
   \<and> (Call_retrieve [''1''] [], Raised (OtherError ''OperationalError''))
       \<in> set (fst (retrieve (demo_viewset (Some 2) failing_manager) (page_request ''1'')
                     [(''pk'', ''1'')]))
   \<and> snd (retrieve (demo_viewset (Some 2) failing_manager) (page_request ''1'') [(''pk'', ''1'')])
       = Inl (OtherError ''OperationalError'')
   \<and> (Call_get_page [10, 20, 30, 40, 50], Raised InvalidPage)
       \<in> set (fst (list_view (demo_viewset (Some 2) (demo_manager [10, 20, 30, 40, 50]))
                     (page_request ''4'') []))
   \<and> snd (list_view (demo_viewset (Some 2) (demo_manager [10, 20, 30, 40, 50]))
             (page_request ''4'') [])
       = Inr (Response (JDict []) HTTP_400_BAD_REQUEST)"
proof -
  have l: "(Call_list [] [(''page'', ''1'')], Raised (OtherError ''OperationalError''))
     \<in> set (fst (list_view (demo_viewset (Some 2) failing_manager) (page_request ''1'') []))"
    by (simp add: demo_list_failing)
  have r: "(Call_retrieve [''1''] [], Raised (OtherError ''OperationalError''))
       \<in> set (fst (retrieve (demo_viewset (Some 2) failing_manager) (page_request ''1'')
                     [(''pk'', ''1'')]))"
    by (simp add: demo_retrieve_failing)
  have p: "(Call_get_page [10, 20, 30, 40, 50], Raised InvalidPage)
       \<in> set (fst (list_view (demo_viewset (Some 2) (demo_manager [10, 20, 30, 40, 50]))
                     (page_request ''4'') []))"
    by (simp add: demo_list_page4)
  from l only_invalid_page_is_recovered
         [of "demo_viewset (Some 2) failing_manager" "page_request ''1''" "[]"]
  have l': "snd (list_view (demo_viewset (Some 2) failing_manager) (page_request ''1'') [])
       = Inl (OtherError ''OperationalError'')"
    by fastforce
  from r only_invalid_page_is_recovered
         [of "demo_viewset (Some 2) failing_manager" "page_request ''1''" "[(''pk'', ''1'')]"]
  have r': "snd (retrieve (demo_viewset (Some 2) failing_manager) (page_request ''1'')
                   [(''pk'', ''1'')]) = Inl (OtherError ''OperationalError'')"
    by fastforce
  from p only_invalid_page_is_recovered
         [of "demo_viewset (Some 2) (demo_manager [10, 20, 30, 40, 50])" "page_request ''4''" "[]"]
  have p': "snd (list_view (demo_viewset (Some 2) (demo_manager [10, 20, 30, 40, 50]))
             (page_request ''4'') []) = Inr (Response (JDict []) HTTP_400_BAD_REQUEST)"
    by fastforce
  from l l' r r' p p' show ?thesis
    by blast
qed

text \<open>
  C4. When the manager's \<^verbatim>\<open>retrieve\<close> raises the not-found signal,
  \<^verbatim>\<open>retrieve\<close> is left by that signal, which the framework boundary serves as 404;
  the run is the construction of the manager and the one call of \<^verbatim>\<open>mgr.retrieve\<close>,
  nothing else.
\<close>

theorem retrieve_not_found_propagates:
  assumes "manager_factory self [(''request'', request)] = Inr mgr"
      and "mgr_retrieve mgr (get_pks self request kwargs) (get_other_pks self request) = Inl Http404"
  shows "retrieve self request kwargs =
           ([(Call_manager_factory [(''request'', request)], Returned),
             (Call_retrieve (map snd kwargs) [], Raised Http404)],
            Inl Http404)
         \<and> served_status (snd (retrieve self request kwargs)) = Some 404"
  using assms
  by (simp add: view_defs)

theorem retrieve_not_found_propagates_witness:
  "manager_factory (demo_viewset None (demo_manager [10, 20])) [(''request'', page_request ''1'')]
     = Inr (demo_manager [10, 20])
   \<and> mgr_retrieve (demo_manager [10, 20])
       (get_pks (demo_viewset None (demo_manager [10, 20])) (page_request ''1'') [(''pk'', ''7'')])
       (get_other_pks (demo_viewset None (demo_manager [10, 20])) (page_request ''1''))
       = Inl Http404
   \<and> snd (retrieve (demo_viewset None (demo_manager [10, 20])) (page_request ''1'')
            [(''pk'', ''7'')]) = Inl Http404
   \<and> served_status (snd (retrieve (demo_viewset None (demo_manager [10, 20]))
        (page_request ''1'') [(''pk'', ''7'')])) = Some 404"
proof -
  have mf: "manager_factory (demo_viewset None (demo_manager [10, 20]))
      [(''request'', page_request ''1'')] = Inr (demo_manager [10, 20])"
    by (simp add: demo_viewset_def)
  have mr: "mgr_retrieve (demo_manager [10, 20])
       (get_pks (demo_viewset None (demo_manager [10, 20])) (page_request ''1'') [(''pk'', ''7'')])
       (get_other_pks (demo_viewset None (demo_manager [10, 20])) (page_request ''1''))
       = Inl Http404"
    by (simp add: demo_manager_def get_pks_def)
  from retrieve_not_found_propagates [OF mf mr] mf mr show ?thesis
    by simp
qed

section \<open>Key resolver and serializer factory\<close>

text \<open>
  C5. \<^verbatim>\<open>get_pks\<close> returns the values of the keyword arguments in their order,
  whatever the viewset and its entity type: \<^verbatim>\<open>[pk1, pk2]\<close> for the two keys of
  \<^verbatim>\<open>/models/pk1/childmodel/pk2\<close>, and the empty list for no keyword argument.
\<close>

theorem get_pks_values_in_order:
  "get_pks self request kwargs = map snd kwargs
   \<and> get_pks self request [] = []
   \<and> get_pks self request [(''pk'', pk1), (''child_pk'', pk2)] = [pk1, pk2]
   \<and> get_pks self request kwargs = get_pks (other :: ('f, 'n) viewset) request' kwargs"
  by (simp add: get_pks_def)

text \<open>
  C9. \<^verbatim>\<open>serializer_factory\<close> dispatches on \<^verbatim>\<open>multiple\<close> alone: true gives the
  list serializer in many-mode, false the single-object serializer, each on the given
  data, model class and context.
\<close>

theorem serializer_factory_dispatch:
  "serializer_factory self True queryset model_class ctx =
     AlchemyListSerializer queryset model_class ctx True
   \<and> serializer_factory self False queryset model_class ctx =
     AlchemyModelSerializer queryset model_class ctx"
  by (simp add: serializer_factory_def)

end
